theory Spec2Isabelle
  imports
    Main
    "HOL-Library.Word"
    "HOL-Library.AList"
    "HOL-Library.Char_ord"
    "HOL-Library.List_Lexorder"
begin

section \<open>Constants of \<^verbatim>\<open>av.go\<close>\<close>

definition HostDefault :: string where
  "HostDefault = ''www.alphavantage.co''"

definition schemeHttps :: string where
  "schemeHttps = ''https''"

definition queryApiKey :: string where
  "queryApiKey = ''apikey''"

definition queryDataType :: string where
  "queryDataType = ''datatype''"

definition queryOutputSize :: string where
  "queryOutputSize = ''outputsize''"

definition querySymbol :: string where
  "querySymbol = ''symbol''"

definition queryMarket :: string where
  "queryMarket = ''market''"

definition queryEndpoint :: string where
  "queryEndpoint = ''function''"

definition queryInterval :: string where
  "queryInterval = ''interval''"

definition queryKeywords :: string where
  "queryKeywords = ''keywords''"

definition valueCompact :: string where
  "valueCompact = ''compact''"

definition valueFull :: string where
  "valueFull = ''full''"

definition valueJson :: string where
  "valueJson = ''json''"

definition valueDigitcalCurrencyEndpoint :: string where
  "valueDigitcalCurrencyEndpoint = ''DIGITAL_CURRENCY_INTRADAY''"

definition valueSymbolSearchEndpoint :: string where
  "valueSymbolSearchEndpoint = ''SYMBOL_SEARCH''"

definition pathQuery :: string where
  "pathQuery = ''query''"

text \<open>
  Modelled from the spec: \<^verbatim>\<open>valueCsv\<close> is used by \<^verbatim>\<open>buildRequestPath\<close> but declared in a
  file that is not part of \<^verbatim>\<open>av.go\<close>. The spec gives the data-type markers of the wire format
  as \<^verbatim>\<open>csv\<close> and \<^verbatim>\<open>json\<close>, the tabular one being the default.
\<close>

definition valueCsv :: string where
  "valueCsv = ''csv''"

text \<open>
  \<^verbatim>\<open>time.Duration\<close> counts nanoseconds in an \<^verbatim>\<open>int64\<close>; \<^verbatim>\<open>time.Second * 30\<close> is a constant
  expression, evaluated exactly, and fits.
\<close>

type_synonym Duration = int

definition time_Second :: Duration where
  "time_Second = 1000000000"

definition requestTimeout :: Duration where
  "requestTimeout = time_Second * 30"

section \<open>OutputSize\<close>

text \<open>\<^verbatim>\<open>type OutputSize uint8\<close>, with \<^verbatim>\<open>Compact = iota\<close> and \<^verbatim>\<open>Full\<close> the next constant.\<close>

type_synonym OutputSize = "8 word"

definition Compact :: OutputSize where
  "Compact = 0"

definition Full :: OutputSize where
  "Full = 1"

definition OutputSize_String :: "OutputSize \<Rightarrow> string" where
  "OutputSize_String outputSize =
     (if outputSize = Compact then valueCompact
      else if outputSize = Full then valueFull
      else valueCompact)"

text \<open>
  \<^verbatim>\<open>getOutputSize\<close>: the variadic arguments arrive as a slice; the index \<^verbatim>\<open>0\<close> is read only
  under the length test.
\<close>

definition getOutputSize :: "OutputSize list \<Rightarrow> string" where
  "getOutputSize optionalOutputSize =
     (if length optionalOutputSize > 0 then OutputSize_String (optionalOutputSize ! 0)
      else OutputSize_String Compact)"

section \<open>The standard library's URL values\<close>

text \<open>
  \<^verbatim>\<open>url.URL\<close>, with the fields this package reads or writes. The others (\<^verbatim>\<open>Opaque\<close>,
  \<^verbatim>\<open>User\<close>, \<^verbatim>\<open>RawPath\<close>, \<^verbatim>\<open>ForceQuery\<close>, \<^verbatim>\<open>Fragment\<close>, ...) keep their zero values from
  \<^verbatim>\<open>&url.URL{}\<close> on.
\<close>

record URL =
  Scheme :: string
  Host :: string
  Path :: string
  RawQuery :: string

text \<open>
  \<^verbatim>\<open>url.Values\<close> is \<^verbatim>\<open>map[string][]string\<close>. A Go map is represented by the list of its
  entries, one per key; the order of the list stands for the (unspecified) order in which
  the runtime would enumerate the map, and nothing below may depend on it.
\<close>

type_synonym Values = "(string \<times> string list) list"

text \<open>\<^verbatim>\<open>func (v Values) Set(key, value string) { v[key] = []string{value} }\<close>\<close>

definition Values_Set :: "Values \<Rightarrow> string \<Rightarrow> string \<Rightarrow> Values" where
  "Values_Set v key val = AList.update key [val] v"

text \<open>
  \<^verbatim>\<open>url.QueryEscape\<close>: letters, digits and \<^verbatim>\<open>- _ . ~\<close> are kept, a space becomes \<^verbatim>\<open>+\<close>, and
  every other byte \<^verbatim>\<open>c\<close> becomes \<^verbatim>\<open>%\<close> followed by \<^verbatim>\<open>upperhex[c>>4]\<close> and \<^verbatim>\<open>upperhex[c&15]\<close>.
\<close>

definition upperhex :: string where
  "upperhex = ''0123456789ABCDEF''"

definition shouldEscape :: "char \<Rightarrow> bool" where
  "shouldEscape c =
     (if (CHR ''a'' \<le> c \<and> c \<le> CHR ''z'') \<or> (CHR ''A'' \<le> c \<and> c \<le> CHR ''Z'')
         \<or> (CHR ''0'' \<le> c \<and> c \<le> CHR ''9'') then False
      else if c \<in> set ''-_.~'' then False
      else True)"

definition escape_byte :: "char \<Rightarrow> string" where
  "escape_byte c =
     (if c = CHR '' '' then ''+''
      else if shouldEscape c then
        [CHR ''%'', upperhex ! (of_char c div 16), upperhex ! (of_char c mod 16)]
      else [c])"

definition QueryEscape :: "string \<Rightarrow> string" where
  "QueryEscape s = concat (map escape_byte s)"

text \<open>
  \<^verbatim>\<open>func (v Values) Encode() string\<close>: the keys are sorted as strings (bytewise), and for each
  key, in that order, each of its values is written as \<^verbatim>\<open>key=value\<close>, both escaped, with
  \<^verbatim>\<open>&\<close> before it when the buffer is not empty. \<open>Values_pairs\<close> is the sequence of the
  two nested loops, \<open>write_pair\<close> the body of the inner one.
\<close>

definition Values_pairs :: "Values \<Rightarrow> (string \<times> string) list" where
  "Values_pairs v =
     concat (map (\<lambda>k. map (Pair k) (case map_of v k of Some vs \<Rightarrow> vs | None \<Rightarrow> []))
                 (sort (map fst v)))"

definition write_pair :: "string \<Rightarrow> string \<times> string \<Rightarrow> string" where
  "write_pair buf kv =
     (if length buf > 0 then buf @ ''&'' else buf)
       @ QueryEscape (fst kv) @ ''='' @ QueryEscape (snd kv)"

definition Values_Encode :: "Values \<Rightarrow> string" where
  "Values_Encode v = (if length v = 0 then [] else foldl write_pair [] (Values_pairs v))"

section \<open>Responses and connections\<close>

text \<open>
  A response body is a stream that delivers some bytes and then ends, either at the end of
  the data or with an error. \<^verbatim>\<open>ioutil.ReadAll\<close> reads until one or the other and returns the
  bytes read, with a nil error at the end of the data. Go's \<^verbatim>\<open>error\<close> values are kept
  abstract, as a type parameter.
\<close>

record 'e ReadCloser =
  content :: string
  failure :: "'e option"

definition ioutil_ReadAll :: "'e ReadCloser \<Rightarrow> string \<times> 'e option" where
  "ioutil_ReadAll r = (content r, failure r)"

text \<open>\<^verbatim>\<open>http.Response\<close>; only \<^verbatim>\<open>Body\<close> is used, and it is never nil on a response.\<close>

record 'e Response =
  Body :: "'e ReadCloser"

text \<open>
  The interface \<^verbatim>\<open>Connection\<close>. \<^verbatim>\<open>Request\<close> receives a pointer to the endpoint and may write
  through it, so an implementation maps the endpoint to the endpoint as it leaves it,
  together with the two results \<^verbatim>\<open>(*http.Response, error)\<close>, each of which can be nil.
\<close>

type_synonym 'e Connection = "URL \<Rightarrow> URL \<times> 'e Response option \<times> 'e option"

text \<open>\<^verbatim>\<open>http.Client\<close>, with the one field this package sets.\<close>

record http_Client =
  Timeout :: Duration

record avConnection =
  client :: http_Client
  host :: string

definition NewConnectionHost :: "string \<Rightarrow> avConnection" where
  "NewConnectionHost h = \<lparr>client = \<lparr>Timeout = requestTimeout\<rparr>, host = h\<rparr>"

definition NewConnection :: avConnection where
  "NewConnection = NewConnectionHost HostDefault"

text \<open>
  \<^verbatim>\<open>(*avConnection).Request\<close>. The two assignments go through the pointer, so the caller's
  endpoint is the updated one afterwards. \<^verbatim>\<open>(*url.URL).String\<close> and \<^verbatim>\<open>(*http.Client).Get\<close>
  belong to the standard library and to the network; they are parameters.
\<close>

definition Request ::
  "(URL \<Rightarrow> string) \<Rightarrow> (http_Client \<Rightarrow> string \<Rightarrow> 'e Response option \<times> 'e option)
     \<Rightarrow> avConnection \<Rightarrow> 'e Connection" where
  "Request URL_String http_Get conn endpoint =
     (let endpoint = endpoint\<lparr>Scheme := schemeHttps\<rparr>;
          endpoint = endpoint\<lparr>Host := host conn\<rparr>;
          targetUrl = URL_String endpoint
      in (endpoint, http_Get (client conn) targetUrl))"

section \<open>The client\<close>

record 'e Client =
  conn :: "'e Connection"
  apiKey :: string

definition NewClientConnection :: "string \<Rightarrow> 'e Connection \<Rightarrow> 'e Client" where
  "NewClientConnection key connection = \<lparr>conn = connection, apiKey = key\<rparr>"

definition NewClient ::
  "(URL \<Rightarrow> string) \<Rightarrow> (http_Client \<Rightarrow> string \<Rightarrow> 'e Response option \<times> 'e option)
     \<Rightarrow> string \<Rightarrow> 'e Client" where
  "NewClient URL_String http_Get key =
     NewClientConnection key (Request URL_String http_Get NewConnection)"

text \<open>
  \<^verbatim>\<open>buildRequestPath\<close>. \<open>buildQuery\<close> is the part between \<^verbatim>\<open>endpoint.Query()\<close> and
  \<^verbatim>\<open>query.Encode()\<close>: the endpoint is fresh, its \<^verbatim>\<open>RawQuery\<close> is empty and \<^verbatim>\<open>Query()\<close> gives
  the empty \<^verbatim>\<open>Values\<close>; the three defaults are set, then every entry of \<^verbatim>\<open>params\<close>, in the
  order the \<^verbatim>\<open>range\<close> loop meets them. \<^verbatim>\<open>params\<close> is a Go map, given by its entries.
\<close>

definition buildQuery :: "'e Client \<Rightarrow> (string \<times> string) list \<Rightarrow> Values" where
  "buildQuery c params =
     (let query = [];
          query = Values_Set query queryApiKey (apiKey c);
          query = Values_Set query queryDataType valueCsv;
          query = Values_Set query queryOutputSize valueCompact
      in fold (\<lambda>(key, val) query. Values_Set query key val) params query)"

definition buildRequestPath :: "'e Client \<Rightarrow> (string \<times> string) list \<Rightarrow> URL" where
  "buildRequestPath c params =
     \<lparr>Scheme = [], Host = [], Path = pathQuery, RawQuery = Values_Encode (buildQuery c params)\<rparr>"

text \<open>
  What a call of a client operation does, beyond its two results: the endpoint it hands to
  the connection, whether it reads the body itself (\<^verbatim>\<open>ioutil.ReadAll\<close>), whether it hands
  the body or its bytes to a decoder, and the deferred \<^verbatim>\<open>response.Body.Close()\<close>.
\<close>

datatype event = Requested URL | ReadAll | Decoded | Closed

text \<open>
  The two results \<^verbatim>\<open>(value, error)\<close> of an operation, each possibly nil. With a nil response
  and a nil error from the connection, \<^verbatim>\<open>response.Body\<close> dereferences a nil pointer.
\<close>

datatype ('a, 'e) outcome = Returned "'a option" "'e option" | Panicked

text \<open>
  The map literals of the five operations. \<^verbatim>\<open>keyName()\<close> of \<^verbatim>\<open>TimeInterval\<close> and \<^verbatim>\<open>TimeSeries\<close>
  and the constant \<^verbatim>\<open>GlobalQuote\<close> are declared outside \<^verbatim>\<open>av.go\<close>; the strings they give are
  arguments. The keys of each literal are distinct constants.
\<close>

definition StockTimeSeriesIntraday_params :: "string \<Rightarrow> string \<Rightarrow> string \<Rightarrow> (string \<times> string) list" where
  "StockTimeSeriesIntraday_params timeSeriesIntraday_keyName timeInterval_keyName symbol =
     [(queryEndpoint, timeSeriesIntraday_keyName),
      (queryInterval, timeInterval_keyName),
      (querySymbol, symbol)]"

definition StockTimeSeries_params :: "string \<Rightarrow> string \<Rightarrow> OutputSize list \<Rightarrow> (string \<times> string) list" where
  "StockTimeSeries_params timeSeries_keyName symbol optionalOutputSize =
     [(queryEndpoint, timeSeries_keyName),
      (querySymbol, symbol),
      (queryOutputSize, getOutputSize optionalOutputSize)]"

definition DigitalCurrency_params :: "string \<Rightarrow> string \<Rightarrow> (string \<times> string) list" where
  "DigitalCurrency_params digital physical =
     [(queryEndpoint, valueDigitcalCurrencyEndpoint),
      (querySymbol, digital),
      (queryMarket, physical)]"

definition SymbolSearch_params :: "string \<Rightarrow> (string \<times> string) list" where
  "SymbolSearch_params keywords =
     [(queryEndpoint, valueSymbolSearchEndpoint),
      (queryDataType, valueJson),
      (queryKeywords, keywords)]"

definition StockQuote_params :: "string \<Rightarrow> string \<Rightarrow> (string \<times> string) list" where
  "StockQuote_params GlobalQuote symbol =
     [(queryEndpoint, GlobalQuote),
      (querySymbol, symbol)]"

text \<open>
  The operations. The decoders \<^verbatim>\<open>parseTimeSeriesData\<close>, \<^verbatim>\<open>parseDigitalCurrencySeriesData\<close>
  and \<^verbatim>\<open>parseQuoteData\<close> are declared outside \<^verbatim>\<open>av.go\<close> and \<^verbatim>\<open>json.Unmarshal\<close> belongs to the
  standard library: each is the first argument of the operation that calls it. A decoder
  maps the body to its two results; \<^verbatim>\<open>json.Unmarshal\<close> maps the bytes and the pointer it is
  given (nil here) to the pointer as it leaves it and its error.
\<close>

definition StockTimeSeriesIntraday ::
  "('e ReadCloser \<Rightarrow> 'a option \<times> 'e option) \<Rightarrow> string \<Rightarrow> 'e Client \<Rightarrow> string \<Rightarrow> string
     \<Rightarrow> event list \<times> ('a, 'e) outcome" where
  "StockTimeSeriesIntraday parseTimeSeriesData timeSeriesIntraday_keyName c timeInterval_keyName symbol =
     (let endpoint = buildRequestPath c
            (StockTimeSeriesIntraday_params timeSeriesIntraday_keyName timeInterval_keyName symbol);
          (endpoint', response, err) = conn c endpoint
      in if err \<noteq> None then ([Requested endpoint], Returned None err)
         else case response of
           None \<Rightarrow> ([Requested endpoint], Panicked)
         | Some r \<Rightarrow>
             (let (vs, err) = parseTimeSeriesData (Body r)
              in ([Requested endpoint, Decoded, Closed], Returned vs err)))"

definition StockTimeSeries ::
  "('e ReadCloser \<Rightarrow> 'a option \<times> 'e option) \<Rightarrow> 'e Client \<Rightarrow> string \<Rightarrow> string \<Rightarrow> OutputSize list
     \<Rightarrow> event list \<times> ('a, 'e) outcome" where
  "StockTimeSeries parseTimeSeriesData c timeSeries_keyName symbol optionalOutputSize =
     (let endpoint = buildRequestPath c
            (StockTimeSeries_params timeSeries_keyName symbol optionalOutputSize);
          (endpoint', response, err) = conn c endpoint
      in if err \<noteq> None then ([Requested endpoint], Returned None err)
         else case response of
           None \<Rightarrow> ([Requested endpoint], Panicked)
         | Some r \<Rightarrow>
             (let (vs, err) = parseTimeSeriesData (Body r)
              in ([Requested endpoint, Decoded, Closed], Returned vs err)))"

definition DigitalCurrency ::
  "('e ReadCloser \<Rightarrow> 'a option \<times> 'e option) \<Rightarrow> 'e Client \<Rightarrow> string \<Rightarrow> string
     \<Rightarrow> event list \<times> ('a, 'e) outcome" where
  "DigitalCurrency parseDigitalCurrencySeriesData c digital physical =
     (let endpoint = buildRequestPath c (DigitalCurrency_params digital physical);
          (endpoint', response, err) = conn c endpoint
      in if err \<noteq> None then ([Requested endpoint], Returned None err)
         else case response of
           None \<Rightarrow> ([Requested endpoint], Panicked)
         | Some r \<Rightarrow>
             (let (vs, err) = parseDigitalCurrencySeriesData (Body r)
              in ([Requested endpoint, Decoded, Closed], Returned vs err)))"

definition SymbolSearch ::
  "(string \<Rightarrow> 'm option \<Rightarrow> 'm option \<times> 'e option) \<Rightarrow> 'e Client \<Rightarrow> string
     \<Rightarrow> event list \<times> ('m, 'e) outcome" where
  "SymbolSearch json_Unmarshal c keywords =
     (let endpoint = buildRequestPath c (SymbolSearch_params keywords);
          (endpoint', response, err) = conn c endpoint
      in if err \<noteq> None then ([Requested endpoint], Returned None err)
         else case response of
           None \<Rightarrow> ([Requested endpoint], Panicked)
         | Some r \<Rightarrow>
             (let (body, err) = ioutil_ReadAll (Body r)
              in if err \<noteq> None then ([Requested endpoint, ReadAll, Closed], Returned None err)
                 else
                   (let (matches, ignored) = json_Unmarshal body None
                    in ([Requested endpoint, ReadAll, Decoded, Closed], Returned matches None))))"

definition StockQuote ::
  "('e ReadCloser \<Rightarrow> 'a option \<times> 'e option) \<Rightarrow> string \<Rightarrow> 'e Client \<Rightarrow> string
     \<Rightarrow> event list \<times> ('a, 'e) outcome" where
  "StockQuote parseQuoteData GlobalQuote c symbol =
     (let endpoint = buildRequestPath c (StockQuote_params GlobalQuote symbol);
          (endpoint', response, err) = conn c endpoint
      in if err \<noteq> None then ([Requested endpoint], Returned None err)
         else case response of
           None \<Rightarrow> ([Requested endpoint], Panicked)
         | Some r \<Rightarrow>
             (let (q, err) = parseQuoteData (Body r)
              in ([Requested endpoint, Decoded, Closed], Returned q err)))"

section \<open>The tabular decoders\<close>

text \<open>
  Modelled from the spec: the input of the decoders \<^verbatim>\<open>parseTimeSeriesData\<close>,
  \<^verbatim>\<open>parseDigitalCurrencySeriesData\<close> and \<^verbatim>\<open>parseQuoteData\<close>, which \<^verbatim>\<open>av.go\<close> calls and does
  not declare. A tabular response is delimited text with a header row naming the columns
  and one data row per record; it is given here as its records, each a list of fields.
\<close>

record tabular =
  header :: "string list"
  rows :: "string list list"

text \<open>
  Modelled from the spec: the errors of the decoders. A DecodeError identifies the
  offending row (the header is row 0); EmptyResultError is the Quote path's error when
  there is no data row.
\<close>

datatype decode_error = DecodeError nat | EmptyResultError

text \<open>
  Modelled from the spec: how a field is read is not part of \<^verbatim>\<open>av.go\<close>, and the spec only
  names the kinds (a date/time, a decimal number, an integer). The three readers are
  given; each fails on a field it cannot read.
\<close>

record ('t, 'd) field_parsers =
  parse_time :: "string \<Rightarrow> 't option"
  parse_decimal :: "string \<Rightarrow> 'd option"
  parse_integer :: "string \<Rightarrow> int option"

text \<open>
  Modelled from the spec: \<^verbatim>\<open>TimeSeriesValue\<close> is
  \<^verbatim>\<open>{timestamp, open, high, low, close, volume}\<close>, and a record of the stream maps to it by
  position; a record with another number of columns, or with a field that cannot be read,
  fails.
\<close>

record ('t, 'd) TimeSeriesValue =
  ts_timestamp :: 't
  ts_open :: 'd
  ts_high :: 'd
  ts_low :: 'd
  ts_close :: 'd
  ts_volume :: int

definition parseTimeSeriesRecord ::
  "('t, 'd) field_parsers \<Rightarrow> string list \<Rightarrow> ('t, 'd) TimeSeriesValue option" where
  "parseTimeSeriesRecord P r =
     (if length r \<noteq> 6 then None
      else
        Option.bind (parse_time P (r ! 0)) (\<lambda>t.
        Option.bind (parse_decimal P (r ! 1)) (\<lambda>op.
        Option.bind (parse_decimal P (r ! 2)) (\<lambda>hi.
        Option.bind (parse_decimal P (r ! 3)) (\<lambda>lo.
        Option.bind (parse_decimal P (r ! 4)) (\<lambda>cl.
        Option.bind (parse_integer P (r ! 5)) (\<lambda>vol.
          Some \<lparr>ts_timestamp = t, ts_open = op, ts_high = hi, ts_low = lo, ts_close = cl,
                ts_volume = vol\<rparr>)))))))"

text \<open>
  Modelled from the spec: \<^verbatim>\<open>DigitalCurrencySeriesValue\<close> is the timestamp, open, high, low
  and close in the native currency, the same four in the market currency, the volume and
  the market cap; the ten columns after the timestamp are numeric.
\<close>

record ('t, 'd) DigitalCurrencySeriesValue =
  dc_timestamp :: 't
  dc_open :: 'd
  dc_high :: 'd
  dc_low :: 'd
  dc_close :: 'd
  dc_open_market :: 'd
  dc_high_market :: 'd
  dc_low_market :: 'd
  dc_close_market :: 'd
  dc_volume :: 'd
  dc_market_cap :: 'd

definition parseDigitalCurrencyRecord ::
  "('t, 'd) field_parsers \<Rightarrow> string list \<Rightarrow> ('t, 'd) DigitalCurrencySeriesValue option" where
  "parseDigitalCurrencyRecord P r =
     (if length r \<noteq> 11 then None
      else
        Option.bind (parse_time P (r ! 0)) (\<lambda>t.
        Option.bind (parse_decimal P (r ! 1)) (\<lambda>op.
        Option.bind (parse_decimal P (r ! 2)) (\<lambda>hi.
        Option.bind (parse_decimal P (r ! 3)) (\<lambda>lo.
        Option.bind (parse_decimal P (r ! 4)) (\<lambda>cl.
        Option.bind (parse_decimal P (r ! 5)) (\<lambda>opm.
        Option.bind (parse_decimal P (r ! 6)) (\<lambda>him.
        Option.bind (parse_decimal P (r ! 7)) (\<lambda>lom.
        Option.bind (parse_decimal P (r ! 8)) (\<lambda>clm.
        Option.bind (parse_decimal P (r ! 9)) (\<lambda>vol.
        Option.bind (parse_decimal P (r ! 10)) (\<lambda>cap.
          Some \<lparr>dc_timestamp = t, dc_open = op, dc_high = hi, dc_low = lo, dc_close = cl,
                dc_open_market = opm, dc_high_market = him, dc_low_market = lom,
                dc_close_market = clm, dc_volume = vol, dc_market_cap = cap\<rparr>))))))))))))"

text \<open>
  Modelled from the spec: the parsing discipline the three decoders share. The data rows
  are decoded in the order received; the first row that fails fails the whole call with
  a DecodeError for that row, and no partial result is returned.
\<close>

fun decodeRows :: "(string list \<Rightarrow> 'a option) \<Rightarrow> nat \<Rightarrow> string list list \<Rightarrow> decode_error + 'a list" where
  "decodeRows f i [] = Inr []"
| "decodeRows f i (r # rs) =
     (case f r of
        None \<Rightarrow> Inl (DecodeError i)
      | Some v \<Rightarrow>
          (case decodeRows f (Suc i) rs of
             Inl e \<Rightarrow> Inl e
           | Inr vs \<Rightarrow> Inr (v # vs)))"

text \<open>
  Modelled from the spec: \<^verbatim>\<open>parseTimeSeriesData\<close> (the Time-Series Decoder). The first record
  is the header and is discarded; each later record gives one value; the order is the
  order received, and the decoder does not sort.
\<close>

definition parseTimeSeriesData ::
  "('t, 'd) field_parsers \<Rightarrow> tabular \<Rightarrow> decode_error + ('t, 'd) TimeSeriesValue list" where
  "parseTimeSeriesData P t = decodeRows (parseTimeSeriesRecord P) 1 (rows t)"

text \<open>
  Modelled from the spec: \<^verbatim>\<open>parseDigitalCurrencySeriesData\<close> (the Digital-Currency Decoder),
  the same discipline on the wider row.
\<close>

definition parseDigitalCurrencySeriesData ::
  "('t, 'd) field_parsers \<Rightarrow> tabular \<Rightarrow> decode_error + ('t, 'd) DigitalCurrencySeriesValue list" where
  "parseDigitalCurrencySeriesData P t = decodeRows (parseDigitalCurrencyRecord P) 1 (rows t)"

text \<open>
  Modelled from the spec: \<^verbatim>\<open>parseQuoteData\<close> (the Quote Decoder). The header is discarded and
  only the first data row met is used; with no data row there is no quote, which is an
  error. The spec lists the ten fields of a quote but not how each is read, so the reader
  of a quote row is given.
\<close>

definition parseQuoteData :: "(string list \<Rightarrow> 'q option) \<Rightarrow> tabular \<Rightarrow> decode_error + 'q" where
  "parseQuoteData parseQuoteRecord t =
     (case rows t of
        [] \<Rightarrow> Inl EmptyResultError
      | r # rest \<Rightarrow>
          (case parseQuoteRecord r of
             None \<Rightarrow> Inl (DecodeError 1)
           | Some q \<Rightarrow> Inr q))"

section \<open>What the query-building loop computes\<close>

text \<open>
  Not in the source: the value that \<^verbatim>\<open>buildRequestPath\<close> is expected to leave under a key,
  the caller's if the caller gives one and the default otherwise. The lemmas below compare
  \<open>buildQuery\<close> with it.
\<close>

definition merged :: "'e Client \<Rightarrow> (string \<times> string) list \<Rightarrow> string \<Rightarrow> string option" where
  "merged c ps k =
     (case map_of ps k of
        Some v \<Rightarrow> Some v
      | None \<Rightarrow>
          map_of [(queryApiKey, apiKey c), (queryDataType, valueCsv),
                  (queryOutputSize, valueCompact)] k)"

section \<open>Example values\<close>

text \<open>A connection that is down, and one that answers every request with a fixed body.\<close>

definition failing_conn :: "string Connection" where
  "failing_conn endpoint = (endpoint, None, Some ''dial tcp: i/o timeout'')"

definition answering_conn :: "string ReadCloser \<Rightarrow> string Connection" where
  "answering_conn b endpoint = (endpoint, Some \<lparr>Body = b\<rparr>, None)"

definition example_client :: "string Client" where
  "example_client = NewClientConnection ''de mo'' failing_conn"

definition example_params :: "(string \<times> string) list" where
  "example_params =
     [(''symbol'', ''IBM''), (''outputsize'', ''full''), (''function'', ''TIME_SERIES_DAILY'')]"

text \<open>
  For an endpoint with a scheme, a host, a relative path and a query, and nothing else,
  \<^verbatim>\<open>(*url.URL).String\<close> gives \<^verbatim>\<open>scheme://host/path?query\<close> (for a host and path without
  characters to escape).
\<close>

definition example_URL_String :: "URL \<Rightarrow> string" where
  "example_URL_String u = Scheme u @ ''://'' @ Host u @ ''/'' @ Path u @ ''?'' @ RawQuery u"

text \<open>A network that answers with the URL it was asked for and the timeout it was given.\<close>

definition example_http_Get :: "http_Client \<Rightarrow> string \<Rightarrow> string Response option \<times> string option" where
  "example_http_Get cl targetUrl =
     (if Timeout cl = 0 then (None, Some targetUrl)
      else (Some \<lparr>Body = \<lparr>content = targetUrl, failure = None\<rparr>\<rparr>, None))"

text \<open>
  A decoder of bodies that fails on the empty body, and a stand-in for \<^verbatim>\<open>json.Unmarshal\<close>
  into a pointer to a list of symbols. On the body \<^verbatim>\<open>5\<close>, a JSON number, \<^verbatim>\<open>encoding/json\<close>
  first allocates the value the nil pointer is to point to and then reports that a number
  does not fit it; on a body that is not JSON it reports the syntax error before it
  touches the pointer.
\<close>

definition example_parse :: "string ReadCloser \<Rightarrow> string list option \<times> string option" where
  "example_parse b =
     (if content b = [] then (None, Some ''EOF'') else (Some [content b], None))"

definition example_Unmarshal :: "string \<Rightarrow> string list option \<Rightarrow> string list option \<times> string option" where
  "example_Unmarshal data target =
     (if data = ''5'' then
        (Some (case target of None \<Rightarrow> [] | Some m \<Rightarrow> m),
         Some ''json: cannot unmarshal number into Go value of type av.SymbolMatches'')
      else (target, Some ''invalid character looking for beginning of value''))"

text \<open>Readers of fields: any non-empty text as a timestamp, digits with dots as a decimal
  (kept as text), digits as an integer.\<close>

definition example_integer :: "string \<Rightarrow> int option" where
  "example_integer s =
     (if s \<noteq> [] \<and> list_all (\<lambda>c. CHR ''0'' \<le> c \<and> c \<le> CHR ''9'') s
      then Some (foldl (\<lambda>n c. 10 * n + (int (of_char c) - 48)) 0 s)
      else None)"

definition example_fields :: "(string, string) field_parsers" where
  "example_fields =
     \<lparr>parse_time = (\<lambda>s. if s = [] then None else Some s),
      parse_decimal = (\<lambda>s. if s \<noteq> [] \<and> list_all (\<lambda>c. c \<in> set ''0123456789.'') s
                            then Some s else None),
      parse_integer = example_integer\<rparr>"

definition example_table :: tabular where
  "example_table =
     \<lparr>header = [''timestamp'', ''open'', ''high'', ''low'', ''close'', ''volume''],
      rows = [[''2023-01-03'', ''9.8'', ''10'', ''9'', ''9.5'', ''1000''],
              [''2023-01-02'', ''9.1'', ''9.9'', ''9'', ''9.8'', ''1200'']]\<rparr>"

definition example_header_only :: tabular where
  "example_header_only =
     \<lparr>header = [''timestamp'', ''open'', ''high'', ''low'', ''close'', ''volume''], rows = []\<rparr>"

section \<open>Lemmas on the query-building loop\<close>

lemma Values_Set_lookup: "map_of (Values_Set v k x) = (map_of v)(k \<mapsto> [x])"
  by (simp add: Values_Set_def update_conv')

lemma Values_Set_keys: "fst ` set (Values_Set v k x) = insert k (fst ` set v)"
  by (simp add: Values_Set_def dom_update)

lemma fold_Set_lookup:
  "distinct (map fst ps) \<Longrightarrow>
   map_of (fold (\<lambda>(key, val) query. Values_Set query key val) ps q) k =
     (case map_of ps k of Some v \<Rightarrow> Some [v] | None \<Rightarrow> map_of q k)"
proof (induction ps arbitrary: q)
  case Nil
  then show ?case by simp
next
  case (Cons p ps)
  obtain k0 v0 where p: "p = (k0, v0)" by (cases p)
  from Cons.prems have d: "distinct (map fst ps)" and n: "k0 \<notin> fst ` set ps"
    by (auto simp: p)
  from n have none: "map_of ps k0 = None"
    by (simp add: map_of_eq_None_iff)
  show ?case
    using Cons.IH [OF d, of "Values_Set q k0 v0"] none
    by (simp add: p Values_Set_lookup split: option.splits)
qed

lemma fold_Set_keys:
  "fst ` set (fold (\<lambda>(key, val) query. Values_Set query key val) ps q) = fst ` set q \<union> fst ` set ps"
  by (induction ps arbitrary: q) (auto simp: Values_Set_keys split: prod.splits)

lemma fold_Set_distinct:
  "distinct (map fst q) \<Longrightarrow>
   distinct (map fst (fold (\<lambda>(key, val) query. Values_Set query key val) ps q))"
  by (induction ps arbitrary: q) (auto simp: Values_Set_def distinct_update split: prod.splits)

lemmas key_defs = queryApiKey_def queryDataType_def queryOutputSize_def

lemma buildQuery_lookup:
  "distinct (map fst ps) \<Longrightarrow> map_of (buildQuery c ps) k = map_option (\<lambda>v. [v]) (merged c ps k)"
  by (simp add: buildQuery_def fold_Set_lookup merged_def Values_Set_lookup
      key_defs split: option.splits)

lemma buildQuery_keys:
  "fst ` set (buildQuery c ps) = {queryApiKey, queryDataType, queryOutputSize} \<union> fst ` set ps"
  by (auto simp: buildQuery_def fold_Set_keys Values_Set_keys)

lemma Values_Set_distinct:
  "distinct (map fst v) \<Longrightarrow> distinct (map fst (Values_Set v k x))"
  by (simp add: Values_Set_def distinct_update)

lemma buildQuery_distinct: "distinct (map fst (buildQuery c ps))"
  unfolding buildQuery_def Let_def
  by (intro fold_Set_distinct Values_Set_distinct) simp

lemma buildQuery_nonempty: "buildQuery c ps \<noteq> []"
  using buildQuery_keys [of c ps] by auto

lemma Values_pairs_single:
  assumes "\<And>k. k \<in> fst ` set v \<Longrightarrow> map_of v k = Some [f k]"
  shows "Values_pairs v = map (\<lambda>k. (k, f k)) (sort (map fst v))"
proof -
  have "map (\<lambda>k. map (Pair k) (case map_of v k of Some vs \<Rightarrow> vs | None \<Rightarrow> [])) (sort (map fst v))
      = map (\<lambda>k. [(k, f k)]) (sort (map fst v))"
  proof (rule map_cong [OF refl])
    fix k assume "k \<in> set (sort (map fst v))"
    then have "k \<in> fst ` set v" by simp
    then show "map (Pair k) (case map_of v k of Some vs \<Rightarrow> vs | None \<Rightarrow> []) = [(k, f k)]"
      by (simp add: assms)
  qed
  then show ?thesis
    unfolding Values_pairs_def by (simp only: concat_map_singleton)
qed

lemma buildQuery_pairs:
  assumes "distinct (map fst ps)"
  shows "Values_pairs (buildQuery c ps)
         = map (\<lambda>k. (k, the (merged c ps k))) (sort (map fst (buildQuery c ps)))"
proof (rule Values_pairs_single)
  fix k assume "k \<in> fst ` set (buildQuery c ps)"
  then have "map_of (buildQuery c ps) k \<noteq> None"
    by (simp add: map_of_eq_None_iff)
  then show "map_of (buildQuery c ps) k = Some [the (merged c ps k)]"
    by (auto simp: buildQuery_lookup [OF assms])
qed

lemma buildQuery_pairs_keys:
  "distinct (map fst ps) \<Longrightarrow> map fst (Values_pairs (buildQuery c ps)) = sort (map fst (buildQuery c ps))"
  by (simp add: buildQuery_pairs comp_def)

lemma buildQuery_pairs_sorted:
  "distinct (map fst ps) \<Longrightarrow> sorted_wrt (<) (map fst (Values_pairs (buildQuery c ps)))"
  by (simp add: buildQuery_pairs_keys strict_sorted_iff buildQuery_distinct)

lemma merged_dom: "merged c ps k \<noteq> None \<longleftrightarrow> k \<in> {queryApiKey, queryDataType, queryOutputSize} \<union> fst ` set ps"
proof -
  have "k \<in> fst ` set ps \<longleftrightarrow> map_of ps k \<noteq> None"
    by (simp add: map_of_eq_None_iff)
  then show ?thesis
    by (auto simp: merged_def split: option.splits)
qed

lemma buildQuery_pairs_lookup:
  assumes "distinct (map fst ps)"
  shows "map_of (Values_pairs (buildQuery c ps)) k = merged c ps k"
proof -
  have "map_of (Values_pairs (buildQuery c ps)) k
      = ((Some \<circ> (\<lambda>k. the (merged c ps k))) |` set (sort (map fst (buildQuery c ps)))) k"
    by (simp only: buildQuery_pairs [OF assms] map_of_map_restrict)
  also have "\<dots> = merged c ps k"
    using merged_dom [of c ps k] by (auto simp: restrict_map_def buildQuery_keys)
  finally show ?thesis .
qed

lemma sort_keys_unique:
  assumes "distinct xs" "distinct ys" "set xs = set ys"
  shows "sort xs = sort (ys :: string list)"
  using assms by (metis distinct_remdups_id sorted_list_of_set_sort_remdups)

lemma buildRequestPath_order:
  assumes "distinct (map fst ps)" "distinct (map fst ps')" "set ps = set ps'"
  shows "buildRequestPath c ps = buildRequestPath c ps'"
proof -
  have mo: "map_of ps = map_of ps'"
    using assms by (simp add: map_of_inject_set)
  have "set (map fst (buildQuery c ps)) = set (map fst (buildQuery c ps'))"
    using assms(3) by (simp add: buildQuery_keys)
  then have "sort (map fst (buildQuery c ps)) = sort (map fst (buildQuery c ps'))"
    by (intro sort_keys_unique buildQuery_distinct)
  then have "Values_pairs (buildQuery c ps) = Values_pairs (buildQuery c ps')"
    by (simp add: buildQuery_pairs assms(1,2) mo merged_def)
  then show ?thesis
    by (simp add: buildRequestPath_def Values_Encode_def buildQuery_nonempty)
qed

lemma literal_distinct:
  "distinct (map fst (StockTimeSeries_params tk symb opt))"
  by (simp add: StockTimeSeries_params_def queryEndpoint_def querySymbol_def queryOutputSize_def)

section \<open>Lemmas on the operations and the decoders\<close>

lemmas operation_defs =
  StockTimeSeriesIntraday_def StockTimeSeries_def DigitalCurrency_def SymbolSearch_def
  StockQuote_def

lemma decodeRows_all_good:
  "\<forall>r\<in>set rs. f r \<noteq> None \<Longrightarrow> \<exists>vs. decodeRows f i rs = Inr vs \<and> map Some vs = map f rs"
proof (induction rs arbitrary: i)
  case Nil
  then show ?case by simp
next
  case (Cons r rs)
  from Cons.prems obtain v where v: "f r = Some v" by auto
  from Cons.prems have "\<forall>r\<in>set rs. f r \<noteq> None" by simp
  from Cons.IH [OF this, of "Suc i"] obtain vs
    where vs: "decodeRows f (Suc i) rs = Inr vs" "map Some vs = map f rs" by blast
  then show ?case by (simp add: v)
qed

section \<open>Properties\<close>

text \<open>
  C1. For every parameter mapping \<open>P\<close> (its entries in any order, one per key), the query
  string of the endpoint that \<^verbatim>\<open>buildRequestPath\<close> builds is the encoding of a sequence of
  key/value pairs that has the keys \<^verbatim>\<open>apikey\<close>, \<^verbatim>\<open>datatype\<close> and \<^verbatim>\<open>outputsize\<close>; under every
  key of \<open>P\<close> it has the value \<open>P\<close> gives, so that the caller's pairs override the
  defaults, and a default key that \<open>P\<close> does not mention has its default: the client's API
  key, \<^verbatim>\<open>csv\<close>, \<^verbatim>\<open>compact\<close>.
\<close>

theorem buildRequestPath_defaults_overridden:
  assumes "distinct (map fst P)"
  shows "RawQuery (buildRequestPath c P) = foldl write_pair [] (Values_pairs (buildQuery c P))
    \<and> {queryApiKey, queryDataType, queryOutputSize} \<subseteq> fst ` set (Values_pairs (buildQuery c P))
    \<and> (\<forall>k v. (k, v) \<in> set P \<longrightarrow> map_of (Values_pairs (buildQuery c P)) k = Some v)
    \<and> (queryApiKey \<notin> fst ` set P \<longrightarrow>
         map_of (Values_pairs (buildQuery c P)) queryApiKey = Some (apiKey c))
    \<and> (queryDataType \<notin> fst ` set P \<longrightarrow>
         map_of (Values_pairs (buildQuery c P)) queryDataType = Some valueCsv)
    \<and> (queryOutputSize \<notin> fst ` set P \<longrightarrow>
         map_of (Values_pairs (buildQuery c P)) queryOutputSize = Some valueCompact)"
proof -
  let ?pairs = "Values_pairs (buildQuery c P)"
  have raw: "RawQuery (buildRequestPath c P) = foldl write_pair [] ?pairs"
    by (simp add: buildRequestPath_def Values_Encode_def buildQuery_nonempty)
  have keys: "fst ` set ?pairs = {queryApiKey, queryDataType, queryOutputSize} \<union> fst ` set P"
    using buildQuery_pairs_keys [OF assms, of c] buildQuery_keys [of c P]
    by (metis list.set_map set_sort)
  have given: "map_of ?pairs k = Some v" if "(k, v) \<in> set P" for k v
    using that assms by (simp add: buildQuery_pairs_lookup merged_def)
  have absent: "map_of ?pairs k
      = map_of [(queryApiKey, apiKey c), (queryDataType, valueCsv), (queryOutputSize, valueCompact)] k"
    if "k \<notin> fst ` set P" for k
  proof -
    from that have "map_of P k = None" by (simp add: map_of_eq_None_iff)
    then show ?thesis by (simp add: buildQuery_pairs_lookup [OF assms] merged_def)
  qed
  show ?thesis
    using raw keys given absent [of queryApiKey] absent [of queryDataType] absent [of queryOutputSize]
    by (simp add: key_defs)
qed

theorem buildRequestPath_defaults_overridden_witness:
  "distinct (map fst example_params)
   \<and> RawQuery (buildRequestPath example_client example_params)
       = ''apikey=de+mo&datatype=csv&function=TIME_SERIES_DAILY&outputsize=full&symbol=IBM''
   \<and> map_of (Values_pairs (buildQuery example_client example_params)) ''outputsize'' = Some ''full''
   \<and> map_of (Values_pairs (buildQuery example_client example_params)) ''datatype'' = Some ''csv''
   \<and> map_of (Values_pairs (buildQuery example_client example_params)) ''apikey'' = Some ''de mo''"
proof -
  have d: "distinct (map fst example_params)"
    by (simp add: example_params_def)
  have w: "foldl write_pair [] (Values_pairs (buildQuery example_client example_params))
      = ''apikey=de+mo&datatype=csv&function=TIME_SERIES_DAILY&outputsize=full&symbol=IBM''"
    by code_simp
  have m: "(''outputsize'', ''full'') \<in> set example_params"
    and n: "queryDataType \<notin> fst ` set example_params" "queryApiKey \<notin> fst ` set example_params"
    by (simp_all add: example_params_def key_defs)
  have a: "apiKey example_client = ''de mo''"
    by (simp add: example_client_def NewClientConnection_def)
  show ?thesis
    using buildRequestPath_defaults_overridden [OF d, of example_client] d w m n a
    by (simp add: key_defs valueCsv_def)
qed

text \<open>
  C2, as amended. In \<^verbatim>\<open>SymbolSearch\<close>, when the request and the reading of the body succeed
  and \<^verbatim>\<open>json.Unmarshal\<close> fails, the operation returns a nil error together with the pointer
  \<^verbatim>\<open>matches\<close> as \<^verbatim>\<open>json.Unmarshal\<close> left it; the decode error is never surfaced. The result
  is nil exactly when \<^verbatim>\<open>json.Unmarshal\<close> left the pointer nil.
\<close>

theorem SymbolSearch_unmarshal_error_dropped:
  assumes "conn c (buildRequestPath c (SymbolSearch_params kw)) = (endpoint', Some r, None)"
    and "ioutil_ReadAll (Body r) = (body, None)"
    and "unmarshal body None = (m, Some e)"
  shows "SymbolSearch unmarshal c kw
     = ([Requested (buildRequestPath c (SymbolSearch_params kw)), ReadAll, Decoded, Closed],
        Returned m None)"
  using assms by (simp add: SymbolSearch_def Let_def)

theorem SymbolSearch_unmarshal_error_dropped_witness:
  "snd (SymbolSearch example_Unmarshal
      (NewClientConnection ''k'' (answering_conn \<lparr>content = ''{'', failure = None\<rparr>)) ''ibm'')
     = Returned None None"
proof -
  let ?b = "\<lparr>content = ''{'', failure = None\<rparr> :: string ReadCloser"
  let ?c = "NewClientConnection ''k'' (answering_conn ?b)"
  have a: "conn ?c (buildRequestPath ?c (SymbolSearch_params ''ibm''))
      = (buildRequestPath ?c (SymbolSearch_params ''ibm''), Some \<lparr>Body = ?b\<rparr>, None)"
    by (simp add: NewClientConnection_def answering_conn_def)
  have b: "ioutil_ReadAll (Body \<lparr>Body = ?b\<rparr>) = (''{'', None)"
    by (simp add: ioutil_ReadAll_def)
  have u: "example_Unmarshal ''{'' None
      = (None, Some ''invalid character looking for beginning of value'')"
    by (simp add: example_Unmarshal_def)
  show ?thesis
    using SymbolSearch_unmarshal_error_dropped [where unmarshal = example_Unmarshal, OF a b u]
    by simp
qed

text \<open>
  C2 as claimed says that the result is then nil. The pointer starts nil, but
  \<^verbatim>\<open>json.Unmarshal\<close> is given its address and may set it before it fails, as it does on a
  body of well-formed JSON of the wrong type: the result is then not nil.
\<close>

theorem SymbolSearch_unmarshal_error_result_not_nil:
  "snd (example_Unmarshal ''5'' None) \<noteq> None
   \<and> snd (SymbolSearch example_Unmarshal
        (NewClientConnection ''k'' (answering_conn \<lparr>content = ''5'', failure = None\<rparr>)) ''ibm'')
       = Returned (Some []) None
   \<and> snd (SymbolSearch example_Unmarshal
        (NewClientConnection ''k'' (answering_conn \<lparr>content = ''5'', failure = None\<rparr>)) ''ibm'')
       \<noteq> Returned None None"
  by (simp add: SymbolSearch_def Let_def NewClientConnection_def answering_conn_def
      ioutil_ReadAll_def example_Unmarshal_def)

text \<open>
  C3, as amended. The concrete transport's \<^verbatim>\<open>Request\<close> writes through the endpoint pointer:
  it overwrites the scheme with \<^verbatim>\<open>https\<close> and the host with the connection's host. The
  path and the query string are not modified.
\<close>

theorem Request_rewrites_scheme_and_host:
  "fst (Request URL_String http_Get av endpoint)
     = endpoint\<lparr>Scheme := schemeHttps, Host := host av\<rparr>
   \<and> Path (fst (Request URL_String http_Get av endpoint)) = Path endpoint
   \<and> RawQuery (fst (Request URL_String http_Get av endpoint)) = RawQuery endpoint
   \<and> Scheme (fst (Request URL_String http_Get av endpoint)) = ''https''
   \<and> Host (fst (Request URL_String http_Get av endpoint)) = host av"
  by (simp add: Request_def Let_def schemeHttps_def)

theorem Request_rewrites_scheme_and_host_witness:
  "fst (Request example_URL_String example_http_Get (NewConnectionHost ''localhost'')
        (buildRequestPath example_client example_params))
     = \<lparr>Scheme = ''https'', Host = ''localhost'', Path = ''query'',
        RawQuery = ''apikey=de+mo&datatype=csv&function=TIME_SERIES_DAILY&outputsize=full&symbol=IBM''\<rparr>"
proof -
  have e: "buildRequestPath example_client example_params
     = \<lparr>Scheme = [], Host = [], Path = ''query'',
        RawQuery = ''apikey=de+mo&datatype=csv&function=TIME_SERIES_DAILY&outputsize=full&symbol=IBM''\<rparr>"
    by code_simp
  show ?thesis
    using Request_rewrites_scheme_and_host [of example_URL_String example_http_Get
        "NewConnectionHost ''localhost''" "buildRequestPath example_client example_params"]
    by (simp add: e NewConnectionHost_def schemeHttps_def)
qed

text \<open>
  C3 as claimed says that no field is modified. The endpoint that \<^verbatim>\<open>buildRequestPath\<close>
  builds has an empty scheme and an empty host, and has neither after \<^verbatim>\<open>Request\<close>.
\<close>

theorem Request_modifies_endpoint:
  "Scheme (buildRequestPath example_client example_params) = []
   \<and> Host (buildRequestPath example_client example_params) = []
   \<and> Scheme (fst (Request example_URL_String example_http_Get NewConnection
        (buildRequestPath example_client example_params))) = ''https''
   \<and> Host (fst (Request example_URL_String example_http_Get NewConnection
        (buildRequestPath example_client example_params))) = ''www.alphavantage.co''
   \<and> fst (Request example_URL_String example_http_Get NewConnection
        (buildRequestPath example_client example_params))
       \<noteq> buildRequestPath example_client example_params"
  by (simp add: Request_def Let_def buildRequestPath_def schemeHttps_def NewConnection_def
      NewConnectionHost_def HostDefault_def)

text \<open>
  C4. The endpoint that \<^verbatim>\<open>StockTimeSeries\<close> hands to the connection is built from its map
  literal, and the value written under \<^verbatim>\<open>outputsize\<close> in its query string is the string
  of the first element of the optional list when there is one (the elements after it are
  not looked at), and \<^verbatim>\<open>compact\<close> when the list is empty.
\<close>

theorem StockTimeSeries_output_size:
  "(\<exists>rest. fst (StockTimeSeries parseT c tk symb opt)
       = Requested (buildRequestPath c (StockTimeSeries_params tk symb opt)) # rest)
   \<and> RawQuery (buildRequestPath c (StockTimeSeries_params tk symb opt))
     = foldl write_pair [] (Values_pairs (buildQuery c (StockTimeSeries_params tk symb opt)))
   \<and> map_of (Values_pairs (buildQuery c (StockTimeSeries_params tk symb opt))) queryOutputSize
     = Some (case opt of [] \<Rightarrow> ''compact'' | first # later \<Rightarrow> OutputSize_String first)"
proof (intro conjI)
  show "\<exists>rest. fst (StockTimeSeries parseT c tk symb opt)
       = Requested (buildRequestPath c (StockTimeSeries_params tk symb opt)) # rest"
    by (simp add: StockTimeSeries_def Let_def split: prod.splits option.splits)
  show "RawQuery (buildRequestPath c (StockTimeSeries_params tk symb opt))
     = foldl write_pair [] (Values_pairs (buildQuery c (StockTimeSeries_params tk symb opt)))"
    by (simp add: buildRequestPath_def Values_Encode_def buildQuery_nonempty)
  have "map_of (StockTimeSeries_params tk symb opt) queryOutputSize = Some (getOutputSize opt)"
    by (simp add: StockTimeSeries_params_def queryEndpoint_def querySymbol_def queryOutputSize_def)
  then have "merged c (StockTimeSeries_params tk symb opt) queryOutputSize = Some (getOutputSize opt)"
    by (simp add: merged_def)
  moreover have "getOutputSize opt
      = (case opt of [] \<Rightarrow> ''compact'' | first # later \<Rightarrow> OutputSize_String first)"
    by (cases opt) (simp_all add: getOutputSize_def OutputSize_String_def valueCompact_def)
  ultimately show "map_of (Values_pairs (buildQuery c (StockTimeSeries_params tk symb opt))) queryOutputSize
     = Some (case opt of [] \<Rightarrow> ''compact'' | first # later \<Rightarrow> OutputSize_String first)"
    by (simp only: buildQuery_pairs_lookup [OF literal_distinct])
qed

theorem StockTimeSeries_output_size_witness:
  "map_of (Values_pairs (buildQuery example_client
      (StockTimeSeries_params ''TIME_SERIES_DAILY'' ''IBM'' [Full, Compact]))) ''outputsize''
     = Some ''full''
   \<and> map_of (Values_pairs (buildQuery example_client
      (StockTimeSeries_params ''TIME_SERIES_DAILY'' ''IBM'' [Compact, Full]))) ''outputsize''
     = Some ''compact''
   \<and> map_of (Values_pairs (buildQuery example_client
      (StockTimeSeries_params ''TIME_SERIES_DAILY'' ''IBM'' [9, Full]))) ''outputsize''
     = Some ''compact''
   \<and> map_of (Values_pairs (buildQuery example_client
      (StockTimeSeries_params ''TIME_SERIES_DAILY'' ''IBM'' []))) ''outputsize''
     = Some ''compact''
   \<and> fst (StockTimeSeries example_parse example_client ''TIME_SERIES_DAILY'' ''IBM'' [Full, Compact])
     = [Requested \<lparr>Scheme = [], Host = [], Path = ''query'',
          RawQuery = ''apikey=de+mo&datatype=csv&function=TIME_SERIES_DAILY&outputsize=full&symbol=IBM''\<rparr>]"
proof -
  have t: "fst (StockTimeSeries example_parse example_client ''TIME_SERIES_DAILY'' ''IBM'' [Full, Compact])
     = [Requested \<lparr>Scheme = [], Host = [], Path = ''query'',
          RawQuery = ''apikey=de+mo&datatype=csv&function=TIME_SERIES_DAILY&outputsize=full&symbol=IBM''\<rparr>]"
    by code_simp
  have s: "OutputSize_String Full = ''full''" "OutputSize_String Compact = ''compact''"
    "OutputSize_String 9 = ''compact''"
    by (simp_all add: OutputSize_String_def Compact_def Full_def valueCompact_def valueFull_def)
  show ?thesis
    using StockTimeSeries_output_size [of example_parse example_client "''TIME_SERIES_DAILY''" "''IBM''" "[Full, Compact]"]
      StockTimeSeries_output_size [of example_parse example_client "''TIME_SERIES_DAILY''" "''IBM''" "[Compact, Full]"]
      StockTimeSeries_output_size [of example_parse example_client "''TIME_SERIES_DAILY''" "''IBM''" "[9, Full]"]
      StockTimeSeries_output_size [of example_parse example_client "''TIME_SERIES_DAILY''" "''IBM''" "[]"]
    by (simp add: t s queryOutputSize_def)
qed

text \<open>
  C5. The mapping from OutputSize to its string is total: Compact gives \<^verbatim>\<open>compact\<close>, Full
  gives \<^verbatim>\<open>full\<close>, and each of the other 254 values of the underlying \<^verbatim>\<open>uint8\<close> gives
  \<^verbatim>\<open>compact\<close>.
\<close>

theorem OutputSize_String_total:
  "OutputSize_String Compact = ''compact''
   \<and> OutputSize_String Full = ''full''
   \<and> (\<forall>w. w \<noteq> Compact \<and> w \<noteq> Full \<longrightarrow> OutputSize_String w = ''compact'')"
  by (simp add: OutputSize_String_def Compact_def Full_def valueCompact_def valueFull_def)

theorem OutputSize_String_total_witness:
  "(7 :: OutputSize) \<noteq> Compact \<and> (7 :: OutputSize) \<noteq> Full \<and> OutputSize_String 7 = ''compact''
   \<and> OutputSize_String 255 = ''compact''"
  using OutputSize_String_total by (simp add: Compact_def Full_def)

text \<open>
  C6. Building an endpoint is deterministic: whatever the order in which the runtime
  enumerates the parameter map, the same client builds the same endpoint from it, with the
  same query string byte for byte, and the pairs of the query string are in strictly
  increasing (bytewise lexicographic) order of their keys.
\<close>

theorem buildRequestPath_deterministic:
  assumes "distinct (map fst P)" and "distinct (map fst P')" and "set P = set P'"
  shows "buildRequestPath c P = buildRequestPath c P'
    \<and> RawQuery (buildRequestPath c P) = foldl write_pair [] (Values_pairs (buildQuery c P))
    \<and> sorted_wrt (<) (map fst (Values_pairs (buildQuery c P)))"
proof (intro conjI)
  show "buildRequestPath c P = buildRequestPath c P'"
    using assms by (rule buildRequestPath_order)
  show "RawQuery (buildRequestPath c P) = foldl write_pair [] (Values_pairs (buildQuery c P))"
    by (simp add: buildRequestPath_def Values_Encode_def buildQuery_nonempty)
  show "sorted_wrt (<) (map fst (Values_pairs (buildQuery c P)))"
    using assms(1) by (rule buildQuery_pairs_sorted)
qed

theorem buildRequestPath_deterministic_witness:
  "buildRequestPath example_client example_params = buildRequestPath example_client (rev example_params)
   \<and> RawQuery (buildRequestPath example_client (rev example_params))
       = ''apikey=de+mo&datatype=csv&function=TIME_SERIES_DAILY&outputsize=full&symbol=IBM''
   \<and> map fst (Values_pairs (buildQuery example_client example_params))
       = [''apikey'', ''datatype'', ''function'', ''outputsize'', ''symbol'']"
proof -
  have d: "distinct (map fst example_params)" "distinct (map fst (rev example_params))"
    by (simp_all add: example_params_def)
  have s: "set example_params = set (rev example_params)"
    by simp
  have w: "RawQuery (buildRequestPath example_client example_params)
      = ''apikey=de+mo&datatype=csv&function=TIME_SERIES_DAILY&outputsize=full&symbol=IBM''"
    by code_simp
  have k: "map fst (Values_pairs (buildQuery example_client example_params))
       = [''apikey'', ''datatype'', ''function'', ''outputsize'', ''symbol'']"
    by code_simp
  show ?thesis
    using buildRequestPath_deterministic [OF d s, of example_client] w k by simp
qed

text \<open>
  C7. For each of the five operations: if the connection's \<^verbatim>\<open>Request\<close> returns an error for
  the endpoint the operation built, the operation returns a nil result and that same
  error, and it has done nothing but the request: no body is read and no decoder is
  called.
\<close>

theorem transport_error_returned_unchanged:
  "(snd (snd (conn c (buildRequestPath c (StockTimeSeriesIntraday_params ik iv symb)))) = Some e \<longrightarrow>
      StockTimeSeriesIntraday parseT ik c iv symb
        = ([Requested (buildRequestPath c (StockTimeSeriesIntraday_params ik iv symb))],
           Returned None (Some e)))
   \<and> (snd (snd (conn c (buildRequestPath c (StockTimeSeries_params tk symb opt)))) = Some e \<longrightarrow>
      StockTimeSeries parseT c tk symb opt
        = ([Requested (buildRequestPath c (StockTimeSeries_params tk symb opt))],
           Returned None (Some e)))
   \<and> (snd (snd (conn c (buildRequestPath c (DigitalCurrency_params dig phys)))) = Some e \<longrightarrow>
      DigitalCurrency parseD c dig phys
        = ([Requested (buildRequestPath c (DigitalCurrency_params dig phys))],
           Returned None (Some e)))
   \<and> (snd (snd (conn c (buildRequestPath c (SymbolSearch_params kw)))) = Some e \<longrightarrow>
      SymbolSearch unmarshal c kw
        = ([Requested (buildRequestPath c (SymbolSearch_params kw))],
           Returned None (Some e)))
   \<and> (snd (snd (conn c (buildRequestPath c (StockQuote_params gq symb)))) = Some e \<longrightarrow>
      StockQuote parseQ gq c symb
        = ([Requested (buildRequestPath c (StockQuote_params gq symb))],
           Returned None (Some e)))"
  by (simp add: operation_defs Let_def split: prod.splits)

theorem transport_error_returned_unchanged_witness:
  "snd (StockTimeSeriesIntraday example_parse ''TIME_SERIES_INTRADAY'' example_client ''5min'' ''IBM'')
     = Returned None (Some ''dial tcp: i/o timeout'')
   \<and> snd (StockTimeSeries example_parse example_client ''TIME_SERIES_DAILY'' ''IBM'' [Full])
     = Returned None (Some ''dial tcp: i/o timeout'')
   \<and> snd (DigitalCurrency example_parse example_client ''BTC'' ''USD'')
     = Returned None (Some ''dial tcp: i/o timeout'')
   \<and> snd (SymbolSearch example_Unmarshal example_client ''ibm'')
     = Returned None (Some ''dial tcp: i/o timeout'')
   \<and> snd (StockQuote example_parse ''GLOBAL_QUOTE'' example_client ''IBM'')
     = Returned None (Some ''dial tcp: i/o timeout'')
   \<and> length (fst (SymbolSearch example_Unmarshal example_client ''ibm'')) = 1"
proof -
  have down: "snd (snd (conn example_client ep)) = Some ''dial tcp: i/o timeout''" for ep
    by (simp add: example_client_def NewClientConnection_def failing_conn_def)
  show ?thesis
    using transport_error_returned_unchanged [where c = example_client
        and ik = "''TIME_SERIES_INTRADAY''" and iv = "''5min''" and tk = "''TIME_SERIES_DAILY''" and symb = "''IBM''"
        and e = "''dial tcp: i/o timeout''" and parseT = example_parse and opt = "[Full]"
        and dig = "''BTC''" and phys = "''USD''" and parseD = example_parse and kw = "''ibm''"
        and unmarshal = example_Unmarshal and gq = "''GLOBAL_QUOTE''" and parseQ = example_parse]
    by (simp add: down)
qed

text \<open>
  C8. The concrete transport's \<^verbatim>\<open>Request\<close> gets, through the connection's HTTP client, the
  URL of the endpoint with its scheme set to \<^verbatim>\<open>https\<close> and its host set to the connection's
  host. The host is the one the connection was made with, \<^verbatim>\<open>www.alphavantage.co\<close> by
  default, and the HTTP client is made with a timeout of 30 seconds (in nanoseconds).
\<close>

theorem Request_https_host_timeout:
  "snd (Request URL_String http_Get av endpoint)
     = http_Get (client av) (URL_String (endpoint\<lparr>Scheme := ''https'', Host := host av\<rparr>))
   \<and> host (NewConnectionHost h) = h
   \<and> host NewConnection = ''www.alphavantage.co''
   \<and> Timeout (client (NewConnectionHost h)) = 30 * 1000000000
   \<and> Timeout (client NewConnection) = 30 * 1000000000"
  by (simp add: Request_def Let_def schemeHttps_def NewConnection_def NewConnectionHost_def
      HostDefault_def requestTimeout_def time_Second_def)

theorem Request_https_host_timeout_witness:
  "snd (Request example_URL_String example_http_Get NewConnection
        (buildRequestPath example_client example_params))
     = (Some \<lparr>Body = \<lparr>content = ''https://www.alphavantage.co/query?apikey=de+mo&datatype=csv&function=TIME_SERIES_DAILY&outputsize=full&symbol=IBM'', failure = None\<rparr>\<rparr>, None)"
proof -
  have e: "buildRequestPath example_client example_params
     = \<lparr>Scheme = [], Host = [], Path = ''query'',
        RawQuery = ''apikey=de+mo&datatype=csv&function=TIME_SERIES_DAILY&outputsize=full&symbol=IBM''\<rparr>"
    by code_simp
  show ?thesis
    using Request_https_host_timeout [of example_URL_String example_http_Get
        NewConnection "buildRequestPath example_client example_params"]
    by (simp add: e example_URL_String_def example_http_Get_def)
qed

text \<open>
  C9. On a tabular stream of a header and \<open>N\<close> well-formed data rows the Time-Series
  Decoder returns \<open>N\<close> values, the \<open>i\<close>-th decoded from the \<open>i\<close>-th data row, whatever the
  header is. With no data row the two series decoders return the empty sequence and no
  error, and the Quote decoder returns an error.
\<close>

theorem decoders_keep_rows_in_order:
  "((\<forall>r\<in>set (rows t). parseTimeSeriesRecord P r \<noteq> None) \<longrightarrow>
      (\<exists>vs. parseTimeSeriesData P t = Inr vs \<and> length vs = length (rows t)
         \<and> map Some vs = map (parseTimeSeriesRecord P) (rows t)))
   \<and> parseTimeSeriesData P (t\<lparr>header := h\<rparr>) = parseTimeSeriesData P t
   \<and> (rows t = [] \<longrightarrow>
        parseTimeSeriesData P t = Inr [] \<and> parseDigitalCurrencySeriesData P t = Inr []
        \<and> parseQuoteData parseQuoteRecord t = Inl EmptyResultError)"
proof (intro conjI impI)
  assume "\<forall>r\<in>set (rows t). parseTimeSeriesRecord P r \<noteq> None"
  from decodeRows_all_good [OF this, of 1] obtain vs
    where vs: "decodeRows (parseTimeSeriesRecord P) 1 (rows t) = Inr vs"
      "map Some vs = map (parseTimeSeriesRecord P) (rows t)" by blast
  from vs(2) have "length vs = length (rows t)"
    by (metis length_map)
  with vs show "\<exists>vs. parseTimeSeriesData P t = Inr vs \<and> length vs = length (rows t)
         \<and> map Some vs = map (parseTimeSeriesRecord P) (rows t)"
    by (simp add: parseTimeSeriesData_def)
next
  show "parseTimeSeriesData P (t\<lparr>header := h\<rparr>) = parseTimeSeriesData P t"
    by (simp add: parseTimeSeriesData_def)
next
  assume "rows t = []"
  then show "parseTimeSeriesData P t = Inr []" by (simp add: parseTimeSeriesData_def)
next
  assume "rows t = []"
  then show "parseDigitalCurrencySeriesData P t = Inr []"
    by (simp add: parseDigitalCurrencySeriesData_def)
next
  assume "rows t = []"
  then show "parseQuoteData parseQuoteRecord t = Inl EmptyResultError"
    by (simp add: parseQuoteData_def)
qed

theorem decoders_keep_rows_in_order_witness:
  "parseTimeSeriesData example_fields example_table
     = Inr [\<lparr>ts_timestamp = ''2023-01-03'', ts_open = ''9.8'', ts_high = ''10'',
              ts_low = ''9'', ts_close = ''9.5'', ts_volume = 1000\<rparr>,
            \<lparr>ts_timestamp = ''2023-01-02'', ts_open = ''9.1'', ts_high = ''9.9'',
              ts_low = ''9'', ts_close = ''9.8'', ts_volume = 1200\<rparr>]
   \<and> parseTimeSeriesData example_fields example_header_only = Inr []
   \<and> parseDigitalCurrencySeriesData example_fields example_header_only = Inr []
   \<and> parseQuoteData (parseTimeSeriesRecord example_fields) example_header_only
       = Inl EmptyResultError"
proof -
  have r1: "parseTimeSeriesRecord example_fields [''2023-01-03'', ''9.8'', ''10'', ''9'', ''9.5'', ''1000'']
      = Some \<lparr>ts_timestamp = ''2023-01-03'', ts_open = ''9.8'', ts_high = ''10'',
              ts_low = ''9'', ts_close = ''9.5'', ts_volume = 1000\<rparr>"
    by code_simp
  have r2: "parseTimeSeriesRecord example_fields [''2023-01-02'', ''9.1'', ''9.9'', ''9'', ''9.8'', ''1200'']
      = Some \<lparr>ts_timestamp = ''2023-01-02'', ts_open = ''9.1'', ts_high = ''9.9'',
              ts_low = ''9'', ts_close = ''9.8'', ts_volume = 1200\<rparr>"
    by code_simp
  have good: "\<forall>r\<in>set (rows example_table). parseTimeSeriesRecord example_fields r \<noteq> None"
    by (simp add: example_table_def r1 r2)
  have empty: "rows example_header_only = []"
    by (simp add: example_header_only_def)
  from decoders_keep_rows_in_order [where t = example_table and P = example_fields] good
  obtain vs where vs: "parseTimeSeriesData example_fields example_table = Inr vs"
    "map Some vs = map (parseTimeSeriesRecord example_fields) (rows example_table)"
    by blast
  from vs(2) have "map Some vs = map Some [\<lparr>ts_timestamp = ''2023-01-03'', ts_open = ''9.8'', ts_high = ''10'',
              ts_low = ''9'', ts_close = ''9.5'', ts_volume = 1000\<rparr>,
            \<lparr>ts_timestamp = ''2023-01-02'', ts_open = ''9.1'', ts_high = ''9.9'',
              ts_low = ''9'', ts_close = ''9.8'', ts_volume = 1200\<rparr>]"
    by (simp add: example_table_def r1 r2)
  then have "vs = [\<lparr>ts_timestamp = ''2023-01-03'', ts_open = ''9.8'', ts_high = ''10'',
              ts_low = ''9'', ts_close = ''9.5'', ts_volume = 1000\<rparr>,
            \<lparr>ts_timestamp = ''2023-01-02'', ts_open = ''9.1'', ts_high = ''9.9'',
              ts_low = ''9'', ts_close = ''9.8'', ts_volume = 1200\<rparr>]"
    by (simp add: map_eq_Cons_conv)
  with vs(1) show ?thesis
    using decoders_keep_rows_in_order [where t = example_header_only and P = example_fields
        and parseQuoteRecord = "parseTimeSeriesRecord example_fields"] empty
    by simp
qed

text \<open>
  C10. In \<^verbatim>\<open>SymbolSearch\<close>, when the request succeeds and reading the body fails, the
  operation returns a nil result and the read error, without calling \<^verbatim>\<open>json.Unmarshal\<close>;
  when reading succeeds the error returned is nil, whatever \<^verbatim>\<open>json.Unmarshal\<close> reports.
\<close>

theorem SymbolSearch_read_error_surfaced:
  assumes "conn c (buildRequestPath c (SymbolSearch_params kw)) = (endpoint', Some r, None)"
  shows "(ioutil_ReadAll (Body r) = (data, Some e) \<longrightarrow>
            SymbolSearch unmarshal c kw
              = ([Requested (buildRequestPath c (SymbolSearch_params kw)), ReadAll, Closed],
                 Returned None (Some e)))
       \<and> (ioutil_ReadAll (Body r) = (data, None) \<longrightarrow>
            (\<exists>m. snd (SymbolSearch unmarshal c kw) = Returned m None))"
  using assms by (simp add: SymbolSearch_def Let_def split: prod.splits)

theorem SymbolSearch_read_error_surfaced_witness:
  "SymbolSearch example_Unmarshal
      (NewClientConnection ''k'' (answering_conn \<lparr>content = ''{'', failure = Some ''connection reset''\<rparr>))
      ''ibm''
     = ([Requested (buildRequestPath
            (NewClientConnection ''k'' (answering_conn \<lparr>content = ''{'', failure = Some ''connection reset''\<rparr>))
            (SymbolSearch_params ''ibm'')), ReadAll, Closed],
        Returned None (Some ''connection reset''))"
proof -
  let ?b = "\<lparr>content = ''{'', failure = Some ''connection reset''\<rparr>"
  let ?c = "NewClientConnection ''k'' (answering_conn ?b)"
  have a: "conn ?c (buildRequestPath ?c (SymbolSearch_params ''ibm''))
      = (buildRequestPath ?c (SymbolSearch_params ''ibm''), Some \<lparr>Body = ?b\<rparr>, None)"
    by (simp add: NewClientConnection_def answering_conn_def)
  have b: "ioutil_ReadAll (Body \<lparr>Body = ?b\<rparr>) = (''{'', Some ''connection reset'')"
    by (simp add: ioutil_ReadAll_def)
  show ?thesis
    using SymbolSearch_read_error_surfaced [OF a, of "''{''" "''connection reset''" example_Unmarshal] b
    by simp
qed

end
